theory Spec2Isabelle
  imports Complex_Main "HOL-Library.AList" "HOL-Library.Sublist"
begin

section \<open>Cells, rows and data frames\<close>

text \<open>
  The program moves its data around in pandas data frames.  A cell holds a Python
  string, a float (read as a real number), a pandas timestamp (the instant, in seconds
  after the epoch) or a missing value (\<open>NaN\<close>, \<open>None\<close>, \<open>NaT\<close>).
  A row is the dictionary the scraper builds for one post: an association list in
  insertion order.  A frame is its column index and its rows; a row has one cell for
  each label, so a frame with the same label on two columns has no faithful picture
  here.
\<close>

datatype val = is_Str: Str string | is_Num: Num real | is_Ts: Ts real | Null

type_synonym row = "(string \<times> val) list"

record dataframe =
  columns :: "string list"
  rows :: "row list"

datatype error =
    ValueError string
  | KeyError string
  | TypeError string
  | OutOfBoundsDatetime string
  | DatabaseError string

text \<open>The cell of a row in a column; a key the dictionary lacks reads as missing.\<close>

definition cell :: "row \<Rightarrow> string \<Rightarrow> val" where
  "cell r c = (case map_of r c of Some v \<Rightarrow> v | None \<Rightarrow> Null)"

text \<open>\<^verbatim>\<open>pd.DataFrame()\<close>: no columns and no rows.\<close>

definition DataFrame_empty :: dataframe where
  "DataFrame_empty = \<lparr>columns = [], rows = []\<rparr>"

text \<open>
  \<^verbatim>\<open>pd.DataFrame(records)\<close> for a list of dictionaries that all have the same keys
  (the scraper builds every dictionary from one literal): the columns are those keys,
  and an empty list gives the frame without columns.
\<close>

definition DataFrame :: "row list \<Rightarrow> dataframe" where
  "DataFrame records =
     \<lparr>columns = (case records of [] \<Rightarrow> [] | r # _ \<Rightarrow> map fst r), rows = records\<rparr>"

text \<open>\<^verbatim>\<open>df.empty\<close>: some axis has length zero.\<close>

definition df_empty :: "dataframe \<Rightarrow> bool" where
  "df_empty df \<longleftrightarrow> columns df = [] \<or> rows df = []"

text \<open>\<^verbatim>\<open>df[c]\<close>: the values of a column, a \<open>KeyError\<close> when the frame has no such column.\<close>

definition getitem :: "dataframe \<Rightarrow> string \<Rightarrow> error + val list" where
  "getitem df c =
     (if c \<in> set (columns df) then Inr (map (\<lambda>r. cell r c) (rows df)) else Inl (KeyError c))"

text \<open>
  \<^verbatim>\<open>df[c] = values\<close>: an existing column is overwritten where it stands, a new one is
  added after the last column.
\<close>

definition setitem :: "string \<Rightarrow> val list \<Rightarrow> dataframe \<Rightarrow> dataframe" where
  "setitem c vs df =
     \<lparr>columns = (if c \<in> set (columns df) then columns df else columns df @ [c]),
      rows = map (\<lambda>(r, v). AList.update c v r) (zip (rows df) vs)\<rparr>"

text \<open>
  \<^verbatim>\<open>series.apply(f)\<close>: the function is called on the cells in order, and the first
  call that raises ends the whole application with that exception.
\<close>

fun apply_series :: "('a \<Rightarrow> error + 'b) \<Rightarrow> 'a list \<Rightarrow> error + 'b list" where
  "apply_series f [] = Inr []"
| "apply_series f (v # vs) =
     (case f v of
        Inl e \<Rightarrow> Inl e
      | Inr y \<Rightarrow> (case apply_series f vs of Inl e \<Rightarrow> Inl e | Inr ys \<Rightarrow> Inr (y # ys)))"

text \<open>\<^verbatim>\<open>series.isin(values)\<close> and \<^verbatim>\<open>~mask\<close>.\<close>

definition isin :: "val list \<Rightarrow> val set \<Rightarrow> bool list" where
  "isin series values = map (\<lambda>v. v \<in> values) series"

definition invert :: "bool list \<Rightarrow> bool list" where
  "invert flags = map Not flags"

text \<open>\<^verbatim>\<open>df[mask]\<close>: the rows whose mask entry is true, in their order.\<close>

definition select_rows :: "dataframe \<Rightarrow> bool list \<Rightarrow> dataframe" where
  "select_rows df flags = df\<lparr>rows := map fst (filter snd (zip (rows df) flags))\<rparr>"

section \<open>Sentiment scoring (sentiment\_analysis.py)\<close>

definition get_sentiment_label :: "real \<Rightarrow> string" where
  "get_sentiment_label score =
     (if score \<ge> 0.05 then ''Positive''
      else if score \<le> - 0.05 then ''Negative''
      else ''Neutral'')"

text \<open>
  The lexicon scorer is an external library.  \<open>compound\<close> stands for the compound
  score it gives a string; \<^verbatim>\<open>analyzer.polarity_scores(text)\<close> walks through its
  argument, so on a cell that is not a string (a number, a timestamp, a missing value)
  it raises a \<open>TypeError\<close>, and nothing in \<^verbatim>\<open>add_sentiment_scores\<close> catches it.
\<close>

fun polarity_scores_compound :: "(string \<Rightarrow> real) \<Rightarrow> val \<Rightarrow> error + real" where
  "polarity_scores_compound compound (Str text) = Inr (compound text)"
| "polarity_scores_compound compound v = Inl (TypeError ''object is not iterable'')"

text \<open>
  With the label \<open>text\<close> on two columns \<^verbatim>\<open>df['text']\<close> is a frame, not a series, and
  the assignment of what \<^verbatim>\<open>apply\<close> then returns raises.  The scores are computed
  before the first assignment, so a run that raises has changed nothing.  The label
  column is computed from the score column that was just stored.
\<close>

definition add_sentiment_scores :: "(string \<Rightarrow> real) \<Rightarrow> dataframe \<Rightarrow> error + dataframe" where
  "add_sentiment_scores compound df =
     (if ''text'' \<notin> set (columns df)
      then Inl (ValueError ''DataFrame must contain a 'text' column.'')
      else if count_list (columns df) ''text'' > 1
      then Inl (ValueError ''cannot reindex on an axis with duplicate labels'')
      else
        case apply_series (polarity_scores_compound compound)
               (map (\<lambda>r. cell r ''text'') (rows df)) of
          Inl e \<Rightarrow> Inl e
        | Inr scores \<Rightarrow>
            let df1 = setitem ''sentiment_score'' (map Num scores) df;
                df2 = setitem ''sentiment_label''
                        (map (\<lambda>s. Str (get_sentiment_label s)) scores) df1
            in Inr df2)"

section \<open>The store (db\_utils.py)\<close>

text \<open>
  The database file is absent, or present without the table \<open>mentions\<close>, or holds the
  table: its columns and its rows in insertion order.
\<close>

datatype store = NoFile | NoTable | Table dataframe

definition store_rows :: "store \<Rightarrow> row list" where
  "store_rows st = (case st of Table t \<Rightarrow> rows t | _ \<Rightarrow> [])"

text \<open>
  \<^verbatim>\<open>df.to_sql(TABLE_NAME, conn, if_exists='append', index=False)\<close>: the first write
  creates the table from the frame; a later one inserts the frame's rows after the
  stored ones, and the database refuses a column the table does not have.
\<close>

definition to_sql :: "dataframe \<Rightarrow> store \<Rightarrow> error + store" where
  "to_sql df st =
     (case st of
        Table t \<Rightarrow>
          if set (columns df) \<subseteq> set (columns t)
          then Inr (Table (t\<lparr>rows := rows t @ rows df\<rparr>))
          else Inl (DatabaseError ''table mentions has no such column'')
      | _ \<Rightarrow> Inr (Table \<lparr>columns = columns df, rows = rows df\<rparr>))"

definition save_data :: "dataframe \<Rightarrow> store \<Rightarrow> store" where
  "save_data df st =
     (if df_empty df then st
      else case to_sql df st of
             Inr st' \<Rightarrow> st'
           | Inl e \<Rightarrow> st)"

text \<open>\<^verbatim>\<open>pd.read_sql("SELECT * FROM mentions", conn)\<close>.\<close>

definition read_sql :: "store \<Rightarrow> error + dataframe" where
  "read_sql st =
     (case st of
        Table t \<Rightarrow> Inr t
      | _ \<Rightarrow> Inl (DatabaseError ''no such table: mentions''))"

text \<open>
  \<^verbatim>\<open>pd.to_datetime(series, unit='s')\<close> on one cell.  A pandas timestamp counts
  nanoseconds from the epoch in 64 bits: a number of seconds whose nanoseconds do not
  fit raises \<open>OutOfBoundsDatetime\<close>, and one that fits becomes the timestamp of the
  nearest whole nanosecond.  (Floats are read as real numbers; what the float
  arithmetic of the conversion does below one nanosecond is not modelled.)  A missing
  value stays missing, a timestamp is kept, and text is not a number of seconds.  The
  conversion of a column is \<^verbatim>\<open>apply\<close>-like: one failing cell fails all of it.
\<close>

definition in_timestamp_range :: "real \<Rightarrow> bool" where
  "in_timestamp_range x \<longleftrightarrow>
     - 9223372036854775807 \<le> x * 1000000000 \<and> x * 1000000000 \<le> 9223372036854775807"

definition nearest_nanosecond :: "real \<Rightarrow> real" where
  "nearest_nanosecond x = of_int (round (x * 1000000000)) / 1000000000"

fun to_datetime :: "val \<Rightarrow> error + val" where
  "to_datetime (Num x) =
     (if in_timestamp_range x then Inr (Ts (nearest_nanosecond x))
      else Inl (OutOfBoundsDatetime ''cannot convert input with unit s''))"
| "to_datetime (Ts x) = Inr (Ts x)"
| "to_datetime Null = Inr Null"
| "to_datetime (Str s) = Inl (ValueError ''non convertible value with the unit s'')"

text \<open>
  The body of the \<^verbatim>\<open>try\<close> block of \<^verbatim>\<open>load_data\<close>, and the function: its
  handler catches every exception of the body, the missing table as well as a failed
  conversion, and returns the empty frame.
\<close>

definition load_query :: "store \<Rightarrow> error + dataframe" where
  "load_query st =
     (case read_sql st of
        Inl e \<Rightarrow> Inl e
      | Inr df \<Rightarrow>
          (case getitem df ''created_utc'' of
             Inl e \<Rightarrow> Inl e
           | Inr series \<Rightarrow>
               (case apply_series to_datetime series of
                  Inl e \<Rightarrow> Inl e
                | Inr ts \<Rightarrow> Inr (setitem ''created_utc'' ts df))))"

definition load_data :: "store \<Rightarrow> dataframe" where
  "load_data st =
     (if st = NoFile then DataFrame_empty
      else case load_query st of
             Inr df \<Rightarrow> df
           | Inl e \<Rightarrow> DataFrame_empty)"

section \<open>The scraper (reddit\_scraper.py)\<close>

text \<open>
  A post as the search API hands it over; \<open>author\<close> is absent for a deleted account.
  A search is a lazy listing: it yields some posts and then either ends or raises.
\<close>

record post =
  post_id :: string
  title :: string
  selftext :: string
  author :: "string option"
  created_utc :: real
  permalink :: string

datatype listing = Listing "post list" "string option"

type_synonym api = "string \<Rightarrow> string \<Rightarrow> nat \<Rightarrow> listing"

fun yielded :: "listing \<Rightarrow> post list" where
  "yielded (Listing posts exc) = posts"

fun raised :: "listing \<Rightarrow> string option" where
  "raised (Listing posts exc) = exc"

definition str_author :: "string option \<Rightarrow> string" where
  "str_author a = (case a of None \<Rightarrow> ''None'' | Some name \<Rightarrow> name)"

definition mention :: "string \<Rightarrow> string \<Rightarrow> post \<Rightarrow> row" where
  "mention brand sub_name p =
     [(''id'', Str (post_id p)),
      (''brand'', Str brand),
      (''text'', Str (title p @ '' '' @ selftext p)),
      (''subreddit'', Str sub_name),
      (''author'', Str (str_author (author p))),
      (''created_utc'', Num (created_utc p)),
      (''sentiment_score'', Num 0),
      (''sentiment_label'', Str ''Neutral''),
      (''url'', Str (''https://reddit.com'' @ permalink p))]"

definition could_not_fetch :: "string \<Rightarrow> string \<Rightarrow> string" where
  "could_not_fetch sub_name e = ''Could not fetch from r/'' @ sub_name @ ''. Error: '' @ e"

text \<open>
  One pass of the inner loop body.  The \<^verbatim>\<open>try\<close> block holds the search call and
  the loop over its results: the posts the listing yields are appended to
  \<open>all_posts_data\<close> one by one, and an exception ends the iteration and is printed by
  the handler, which removes nothing.  The state is the list \<open>all_posts_data\<close> and the
  lines the handler printed (the progress bar and the first line of output are left
  out).
\<close>

definition search_brand ::
  "api \<Rightarrow> nat \<Rightarrow> string \<Rightarrow> row list \<times> string list \<Rightarrow> string \<Rightarrow> row list \<times> string list" where
  "search_brand search limit sub_name acc brand =
     (let search_results = search sub_name brand limit;
          all_posts_data = fst acc @ map (mention brand sub_name) (yielded search_results)
      in case raised search_results of
           None \<Rightarrow> (all_posts_data, snd acc)
         | Some e \<Rightarrow> (all_posts_data, snd acc @ [could_not_fetch sub_name e]))"

definition fetch_reddit_mentions ::
  "api \<Rightarrow> string list \<Rightarrow> string list \<Rightarrow> nat \<Rightarrow> dataframe \<times> string list" where
  "fetch_reddit_mentions search brands subreddits limit_per_subreddit =
     (let acc = foldl (\<lambda>acc sub_name.
                   foldl (search_brand search limit_per_subreddit sub_name) acc brands)
                 ([], []) subreddits
      in (DataFrame (fst acc), snd acc))"

section \<open>The update pipeline (poc\_exploration.py)\<close>

definition BRANDS :: "string list" where
  "BRANDS = [''NVIDIA'', ''AMD'']"

definition SUBREDDITS :: "string list" where
  "SUBREDDITS = [''hardware'', ''gaming'', ''pcmasterrace'', ''buildapc'', ''intel'']"

definition POST_LIMIT :: nat where
  "POST_LIMIT = 200"

text \<open>
  How a run ends: at one of the two early returns, at the last line, or with an
  exception that nothing catches.  A run takes the search source, the scorer and the
  store, and gives back how it ended and the store it leaves.
\<close>

datatype outcome = NoNewData | Completed | Raised error

definition run_update_pipeline :: "api \<Rightarrow> (string \<Rightarrow> real) \<Rightarrow> store \<Rightarrow> outcome \<times> store" where
  "run_update_pipeline search compound st =
     (let existing_df = load_data st in
      case (if \<not> df_empty existing_df then getitem existing_df ''id'' else Inr []) of
        Inl e \<Rightarrow> (Raised e, st)
      | Inr existing_col \<Rightarrow>
          let existing_ids = set existing_col;
              latest_df = fst (fetch_reddit_mentions search BRANDS SUBREDDITS POST_LIMIT)
          in if df_empty latest_df then (NoNewData, st)
             else case getitem latest_df ''id'' of
                    Inl e \<Rightarrow> (Raised e, st)
                  | Inr latest_ids \<Rightarrow>
                      let new_posts_df = select_rows latest_df (invert (isin latest_ids existing_ids))
                      in if df_empty new_posts_df then (NoNewData, st)
                         else case add_sentiment_scores compound new_posts_df of
                                Inl e \<Rightarrow> (Raised e, st)
                              | Inr analyzed_df \<Rightarrow> (Completed, save_data analyzed_df st))"

section \<open>Notions used in the statements\<close>

text \<open>
  The nine columns of a stored mention, in the order in which the scraper writes them,
  and what it means for a row, a frame and the store to hold mentions: the keys are
  those columns, the text fields are strings, and the creation time and the score are
  numbers.
\<close>

definition mention_columns :: "string list" where
  "mention_columns =
     [''id'', ''brand'', ''text'', ''subreddit'', ''author'', ''created_utc'',
      ''sentiment_score'', ''sentiment_label'', ''url'']"

definition mention_row :: "row \<Rightarrow> bool" where
  "mention_row r \<longleftrightarrow>
     map fst r = mention_columns
     \<and> list_all (\<lambda>c. is_Str (cell r c))
         [''id'', ''brand'', ''text'', ''subreddit'', ''author'', ''sentiment_label'', ''url'']
     \<and> is_Num (cell r ''created_utc'')
     \<and> is_Num (cell r ''sentiment_score'')"

definition mentions_frame :: "dataframe \<Rightarrow> bool" where
  "mentions_frame df \<longleftrightarrow> columns df = mention_columns \<and> list_all mention_row (rows df)"

definition mentions_store :: "store \<Rightarrow> bool" where
  "mentions_store st = (case st of Table t \<Rightarrow> mentions_frame t | _ \<Rightarrow> True)"

text \<open>
  A row whose creation time is a number of seconds that a pandas timestamp can hold; a
  store of mentions all of whose rows are such, which is what loading it needs; and a
  row whose creation time is moreover a whole number of nanoseconds, as the whole
  seconds of the source are.
\<close>

definition timed_row :: "row \<Rightarrow> bool" where
  "timed_row r = (case cell r ''created_utc'' of Num x \<Rightarrow> in_timestamp_range x | _ \<Rightarrow> False)"

definition loadable_store :: "store \<Rightarrow> bool" where
  "loadable_store st \<longleftrightarrow> mentions_store st \<and> list_all timed_row (store_rows st)"

definition whole_nanoseconds :: "real \<Rightarrow> bool" where
  "whole_nanoseconds x \<longleftrightarrow> of_int (round (x * 1000000000)) = x * 1000000000"

definition instant_row :: "row \<Rightarrow> bool" where
  "instant_row r =
     (case cell r ''created_utc'' of
        Num x \<Rightarrow> in_timestamp_range x \<and> whole_nanoseconds x
      | _ \<Rightarrow> False)"

text \<open>
  The deduplication key of a row, the rows one run of the pipeline fetches, and those of
  them whose key no stored row has.
\<close>

definition id_of :: "row \<Rightarrow> val" where
  "id_of r = cell r ''id''"

definition fetched :: "api \<Rightarrow> row list" where
  "fetched search = rows (fst (fetch_reddit_mentions search BRANDS SUBREDDITS POST_LIMIT))"

definition unseen :: "store \<Rightarrow> row list \<Rightarrow> row list" where
  "unseen st rs = filter (\<lambda>r. id_of r \<notin> id_of ` set (store_rows st)) rs"

text \<open>
  The text of a row, what the scorer does to one row whose text is a string, and what
  loading does to one stored row.
\<close>

definition text_of :: "row \<Rightarrow> string" where
  "text_of r = (case cell r ''text'' of Str s \<Rightarrow> s | _ \<Rightarrow> [])"

definition score_row :: "(string \<Rightarrow> real) \<Rightarrow> row \<Rightarrow> row" where
  "score_row compound r =
     AList.update ''sentiment_label'' (Str (get_sentiment_label (compound (text_of r))))
       (AList.update ''sentiment_score'' (Num (compound (text_of r))) r)"

definition as_timestamp :: "val \<Rightarrow> val" where
  "as_timestamp v = (case v of Num x \<Rightarrow> Ts (nearest_nanosecond x) | _ \<Rightarrow> v)"

definition loaded_row :: "row \<Rightarrow> row" where
  "loaded_row r = AList.update ''created_utc'' (as_timestamp (cell r ''created_utc'')) r"

text \<open>
  The contribution of one (subreddit, brand) pair to a fetch: the rows of the posts its
  listing yielded, and the line printed when the listing raised.
\<close>

definition pair_rows :: "api \<Rightarrow> nat \<Rightarrow> string \<Rightarrow> string \<Rightarrow> row list" where
  "pair_rows search limit sub_name brand = map (mention brand sub_name) (yielded (search sub_name brand limit))"

definition pair_log :: "api \<Rightarrow> nat \<Rightarrow> string \<Rightarrow> string \<Rightarrow> string list" where
  "pair_log search limit sub_name brand =
     (case raised (search sub_name brand limit) of None \<Rightarrow> [] | Some e \<Rightarrow> [could_not_fetch sub_name e])"

section \<open>Example inputs\<close>

text \<open>
  Three posts; a source that returns them for one query and nothing for the others; a
  source that matches one post under every brand; a source whose listing yields a post
  and then fails; a store that already holds the first post; a scorer that gives every
  text the same score; frames with and without a \<open>text\<close> column, and one whose
  text cell is missing; a post dated after the last pandas timestamp (the year 2286),
  a source that returns it, a store that holds it and a frame of it.
\<close>

definition post_A :: post where
  "post_A = \<lparr>post_id = ''A'', title = ''amazing product'', selftext = ''love it'',
     author = Some ''alice'', created_utc = 1700000000, permalink = ''/r/hardware/comments/A''\<rparr>"

definition post_B :: post where
  "post_B = \<lparr>post_id = ''B'', title = ''terrible'', selftext = ''broke immediately'',
     author = None, created_utc = 1700000060, permalink = ''/r/hardware/comments/B''\<rparr>"

definition post_C :: post where
  "post_C = \<lparr>post_id = ''C'', title = ''it arrived on Tuesday'', selftext = [],
     author = Some ''carol'', created_utc = 1700000120, permalink = ''/r/hardware/comments/C''\<rparr>"

definition api_ABC :: api where
  "api_ABC sub_name brand limit =
     (if sub_name = ''hardware'' \<and> brand = ''NVIDIA''
      then Listing [post_A, post_B, post_C] None else Listing [] None)"


definition api_partial :: api where
  "api_partial sub_name brand limit = Listing [post_A] (Some ''received 503 HTTP response'')"

definition store_A :: store where
  "store_A = Table \<lparr>columns = mention_columns, rows = [mention ''NVIDIA'' ''hardware'' post_A]\<rparr>"

definition flat_compound :: "string \<Rightarrow> real" where
  "flat_compound v = 0.6"

definition frame_B :: dataframe where
  "frame_B = DataFrame [mention ''AMD'' ''gaming'' post_B]"

definition frame_no_text :: dataframe where
  "frame_no_text = \<lparr>columns = [''id'', ''brand''], rows = [[(''id'', Str ''A''), (''brand'', Str ''AMD'')]]\<rparr>"

definition frame_text :: dataframe where
  "frame_text = \<lparr>columns = [''id'', ''text''],
     rows = [[(''id'', Str ''A''), (''text'', Str ''amazing product, love it'')],
             [(''id'', Str ''B''), (''text'', Str ''it arrived on Tuesday'')]]\<rparr>"

definition frame_null_text :: dataframe where
  "frame_null_text = \<lparr>columns = [''id'', ''text''], rows = [[(''id'', Str ''A''), (''text'', Null)]]\<rparr>"

definition post_F :: post where
  "post_F = \<lparr>post_id = ''F'', title = ''from the future'', selftext = [],
     author = Some ''frank'', created_utc = 10000000000, permalink = ''/r/hardware/comments/F''\<rparr>"

definition api_F :: api where
  "api_F sub_name brand limit =
     (if sub_name = ''hardware'' \<and> brand = ''NVIDIA'' then Listing [post_F] None else Listing [] None)"

definition store_F :: store where
  "store_F = Table \<lparr>columns = mention_columns, rows = [mention ''NVIDIA'' ''hardware'' post_F]\<rparr>"

definition frame_F :: dataframe where
  "frame_F = DataFrame [mention ''NVIDIA'' ''hardware'' post_F]"

section \<open>Rows and frames\<close>

lemma cell_update: "cell (AList.update k v r) c = (if c = k then v else cell r c)"
  by (simp add: cell_def update_conv')

lemma map_zip_map2: "map (\<lambda>(r, v). F r v) (zip (map G xs) (map H xs)) = map (\<lambda>x. F (G x) (H x)) xs"
  by (induction xs) simp_all

lemma map_zip_map: "map (\<lambda>(r, v). F r v) (zip xs (map H xs)) = map (\<lambda>x. F x (H x)) xs"
  by (induction xs) simp_all

lemma select_rows_filter:
  "map fst (filter snd (zip xs (invert (isin (map f xs) S)))) = filter (\<lambda>r. f r \<notin> S) xs"
  by (induction xs) (simp_all add: invert_def isin_def)

lemma apply_series_map:
  "list_all (\<lambda>x. f (h x) = Inr (g x)) xs \<Longrightarrow> apply_series f (map h xs) = Inr (map g xs)"
  by (induction xs) simp_all

lemma apply_series_cells:
  "apply_series f (map h xs) = Inr ys \<Longrightarrow> list_all (\<lambda>x. \<exists>y. f (h x) = Inr y) xs"
  by (induction xs arbitrary: ys) (auto split: sum.splits)

lemma cell_score_row:
  "cell (score_row compound r) c =
     (if c = ''sentiment_label'' then Str (get_sentiment_label (compound (text_of r)))
      else if c = ''sentiment_score'' then Num (compound (text_of r))
      else cell r c)"
  by (simp add: score_row_def cell_update)

lemma cell_loaded_row:
  "cell (loaded_row r) c = (if c = ''created_utc'' then as_timestamp (cell r ''created_utc'') else cell r c)"
  by (simp add: loaded_row_def cell_update)

lemma keys_update_present: "k \<in> set (map fst r) \<Longrightarrow> map fst (AList.update k v r) = map fst r"
  by (simp add: update_keys)

lemma keys_score_row:
  assumes "map fst r = mention_columns"
  shows "map fst (score_row compound r) = mention_columns"
proof -
  have s: "''sentiment_score'' \<in> set (map fst r)"
    unfolding assms by (simp add: mention_columns_def)
  have l: "''sentiment_label'' \<in> set (map fst r)"
    unfolding assms by (simp add: mention_columns_def)
  have "map fst (AList.update ''sentiment_score'' v r) = map fst r" for v
    using s by (rule keys_update_present)
  then have "map fst (score_row compound r) = map fst r"
    unfolding score_row_def using l by (simp only: keys_update_present)
  then show ?thesis by (simp only: assms)
qed

lemma mention_row_score_row:
  assumes "mention_row r"
  shows "mention_row (score_row compound r)"
proof -
  have k: "map fst (score_row compound r) = mention_columns"
    using assms by (simp add: mention_row_def keys_score_row)
  show ?thesis
    using assms unfolding mention_row_def k by (simp add: cell_score_row)
qed

lemma timed_row_score_row: "timed_row (score_row compound r) = timed_row r"
  by (simp add: timed_row_def cell_score_row)

lemma id_of_loaded_row: "id_of (loaded_row r) = id_of r"
  by (simp add: id_of_def loaded_row_def cell_update)

lemma id_of_score_row: "id_of (score_row compound r) = id_of r"
  by (simp add: id_of_def score_row_def cell_update)

lemma timed_row_converts:
  "timed_row r \<Longrightarrow> to_datetime (cell r ''created_utc'') = Inr (as_timestamp (cell r ''created_utc''))"
  by (cases "cell r ''created_utc''") (simp_all add: timed_row_def as_timestamp_def)

lemma to_datetime_as_timestamp: "to_datetime v = Inr t \<Longrightarrow> t = as_timestamp v"
  by (cases v) (auto simp: as_timestamp_def split: if_splits)

lemma instant_row_timed: "instant_row r \<Longrightarrow> timed_row r"
  by (cases "cell r ''created_utc''") (simp_all add: instant_row_def timed_row_def)

lemma instant_row_loaded:
  assumes "instant_row r"
  shows "\<exists>x. cell r ''created_utc'' = Num x \<and> cell (loaded_row r) ''created_utc'' = Ts x"
proof (cases "cell r ''created_utc''")
  case (Num x)
  then have "whole_nanoseconds x" using assms by (simp add: instant_row_def)
  then have "nearest_nanosecond x = x"
    by (simp add: whole_nanoseconds_def nearest_nanosecond_def)
  then show ?thesis using Num by (simp add: cell_loaded_row as_timestamp_def)
qed (use assms in \<open>simp_all add: instant_row_def\<close>)

section \<open>The scorer on a frame\<close>

lemma polarity_of_string:
  "is_Str (cell r ''text'') \<Longrightarrow>
   polarity_scores_compound compound (cell r ''text'') = Inr (compound (text_of r))"
  by (cases "cell r ''text''") (simp_all add: text_of_def)

lemma scores_of_strings:
  assumes "list_all (\<lambda>r. is_Str (cell r ''text'')) rs"
  shows "apply_series (polarity_scores_compound compound) (map (\<lambda>r. cell r ''text'') rs)
           = Inr (map (\<lambda>r. compound (text_of r)) rs)"
proof (rule apply_series_map)
  show "list_all (\<lambda>r. polarity_scores_compound compound (cell r ''text'') = Inr (compound (text_of r))) rs"
    using assms by (simp add: list_all_iff polarity_of_string)
qed

lemma polarity_scores_compound_Inr:
  "polarity_scores_compound compound (cell r ''text'') = Inr y \<Longrightarrow> is_Str (cell r ''text'')"
  by (cases "cell r ''text''") simp_all

lemma polarity_scores_compound_Inl:
  "polarity_scores_compound compound v = Inl e \<Longrightarrow> e = TypeError ''object is not iterable''"
  by (cases v) simp_all

lemma scores_raise_TypeError:
  "apply_series (polarity_scores_compound compound) vs = Inl e \<Longrightarrow>
   e = TypeError ''object is not iterable''"
  by (induction vs) (auto split: sum.splits dest: polarity_scores_compound_Inl)

lemma scores_returned:
  assumes "apply_series (polarity_scores_compound compound) (map (\<lambda>r. cell r ''text'') rs) = Inr scores"
  shows "scores = map (\<lambda>r. compound (text_of r)) rs"
proof -
  have "list_all (\<lambda>r. \<exists>y. polarity_scores_compound compound (cell r ''text'') = Inr y) rs"
    using assms by (rule apply_series_cells)
  then have "list_all (\<lambda>r. is_Str (cell r ''text'')) rs"
    by (auto simp: list_all_iff dest: polarity_scores_compound_Inr)
  then show ?thesis
    using assms by (simp add: scores_of_strings)
qed

lemma rows_add_sentiment_scores:
  assumes "add_sentiment_scores compound df = Inr out"
  shows "rows out = map (score_row compound) (rows df)"
proof -
  obtain scores where
    s: "apply_series (polarity_scores_compound compound) (map (\<lambda>r. cell r ''text'') (rows df)) = Inr scores"
    and o: "out = setitem ''sentiment_label'' (map (\<lambda>s. Str (get_sentiment_label s)) scores)
                    (setitem ''sentiment_score'' (map Num scores) df)"
    using assms by (auto simp: add_sentiment_scores_def Let_def split: if_splits sum.splits)
  have "scores = map (\<lambda>r. compound (text_of r)) (rows df)"
    using s by (rule scores_returned)
  then show ?thesis
    by (simp add: o setitem_def score_row_def map_zip_map2 map_zip_map comp_def)
qed

lemma columns_add_sentiment_scores:
  "add_sentiment_scores compound df = Inr out \<Longrightarrow>
   filter (\<lambda>c. c \<noteq> ''sentiment_score'' \<and> c \<noteq> ''sentiment_label'') (columns out)
     = filter (\<lambda>c. c \<noteq> ''sentiment_score'' \<and> c \<noteq> ''sentiment_label'') (columns df)"
  by (auto simp: add_sentiment_scores_def Let_def setitem_def split: if_splits sum.splits)

lemma scored_cells:
  assumes "add_sentiment_scores compound df = Inr out" and "i < length (rows df)"
    and "cell (rows df ! i) ''text'' = Str s"
  shows "cell (rows out ! i) ''sentiment_score'' = Num (compound s)
     \<and> cell (rows out ! i) ''sentiment_label'' = Str (get_sentiment_label (compound s))"
proof -
  have "rows out = map (score_row compound) (rows df)"
    using assms(1) by (rule rows_add_sentiment_scores)
  moreover have "text_of (rows df ! i) = s"
    using assms(3) by (simp add: text_of_def)
  ultimately show ?thesis
    using assms(2) by (simp add: cell_score_row)
qed

lemma count_list_distinct: "distinct xs \<Longrightarrow> count_list xs x \<le> 1"
  by (induction xs) (auto simp: count_list_0_iff)

lemma add_sentiment_scores_strings:
  assumes "''text'' \<in> set (columns df)" and "distinct (columns df)"
    and "list_all (\<lambda>r. is_Str (cell r ''text'')) (rows df)"
  shows "\<exists>out. add_sentiment_scores compound df = Inr out"
proof -
  have "\<not> count_list (columns df) ''text'' > 1"
    using count_list_distinct [OF assms(2), of "''text''"] by simp
  then show ?thesis
    using assms(1) scores_of_strings [OF assms(3), of compound]
    by (simp add: add_sentiment_scores_def Let_def)
qed

lemma add_sentiment_scores_mentions:
  assumes "columns df = mention_columns" and "list_all mention_row (rows df)"
  shows "add_sentiment_scores compound df
           = Inr \<lparr>columns = mention_columns, rows = map (score_row compound) (rows df)\<rparr>"
proof -
  have "list_all (\<lambda>r. is_Str (cell r ''text'')) (rows df)"
    using assms(2) by (simp add: list_all_iff mention_row_def)
  then have s: "apply_series (polarity_scores_compound compound) (map (\<lambda>r. cell r ''text'') (rows df))
      = Inr (map (\<lambda>r. compound (text_of r)) (rows df))"
    by (rule scores_of_strings)
  show ?thesis
    using assms(1)
    by (simp add: add_sentiment_scores_def s Let_def setitem_def score_row_def map_zip_map2
        map_zip_map comp_def mention_columns_def)
qed

section \<open>The two loops of the scraper\<close>

lemma foldl_search_brand:
  "foldl (search_brand search limit s) acc brands =
     (fst acc @ concat (map (pair_rows search limit s) brands),
      snd acc @ concat (map (pair_log search limit s) brands))"
  by (induction brands arbitrary: acc) (auto simp: search_brand_def pair_rows_def pair_log_def Let_def split: option.splits)

lemma foldl_subreddits:
  "foldl (\<lambda>acc s. foldl (search_brand search limit s) acc brands) acc subs =
     (fst acc @ concat (map (\<lambda>s. concat (map (pair_rows search limit s) brands)) subs),
      snd acc @ concat (map (\<lambda>s. concat (map (pair_log search limit s) brands)) subs))"
  by (induction subs arbitrary: acc) (simp_all add: foldl_search_brand)

lemma mention_row_mention: "mention_row (mention b s p)"
  by (simp add: mention_row_def mention_def mention_columns_def cell_def)

lemma map_fst_mention: "map fst (mention b s p) = mention_columns"
  by (simp add: mention_def mention_columns_def)

lemma fetch_rows:
  "rows (fst (fetch_reddit_mentions search brands subs limit)) =
     concat (map (\<lambda>s. concat (map (pair_rows search limit s) brands)) subs)"
  by (simp add: fetch_reddit_mentions_def Let_def foldl_subreddits DataFrame_def)

lemma list_all_mention_fetch:
  "list_all mention_row (rows (fst (fetch_reddit_mentions search brands subs limit)))"
  by (auto simp: fetch_rows list_all_iff pair_rows_def mention_row_mention)

lemma fetch_columns:
  "rows (fst (fetch_reddit_mentions search brands subs limit)) \<noteq> [] \<Longrightarrow>
   columns (fst (fetch_reddit_mentions search brands subs limit)) = mention_columns"
  using list_all_mention_fetch [of search brands subs limit]
  by (auto simp: fetch_reddit_mentions_def Let_def DataFrame_def mention_row_def split: list.splits)

lemma mention_rows_fetched: "list_all mention_row (fetched search)"
  unfolding fetched_def by (rule list_all_mention_fetch)

lemma mention_rows_unseen: "list_all mention_row (unseen st (fetched search))"
  using mention_rows_fetched [of search] by (simp add: unseen_def list_all_iff)

section \<open>Loading and saving a store of mentions\<close>

lemma conversion_returned:
  "apply_series to_datetime vs = Inr ts \<Longrightarrow> ts = map as_timestamp vs"
proof (induction vs arbitrary: ts)
  case Nil
  then show ?case by simp
next
  case (Cons v vs)
  then show ?case
    by (auto split: sum.splits dest: to_datetime_as_timestamp)
qed

lemma conversion_of_timed_rows:
  assumes "list_all timed_row rs"
  shows "apply_series to_datetime (map (\<lambda>r. cell r ''created_utc'') rs)
           = Inr (map (\<lambda>r. as_timestamp (cell r ''created_utc'')) rs)"
proof (rule apply_series_map)
  show "list_all (\<lambda>r. to_datetime (cell r ''created_utc'') = Inr (as_timestamp (cell r ''created_utc''))) rs"
    using assms by (simp add: list_all_iff timed_row_converts)
qed

lemma load_data_table:
  assumes "''created_utc'' \<in> set (columns t)"
  shows "load_data (Table t) = DataFrame_empty
         \<or> load_data (Table t) = \<lparr>columns = columns t, rows = map loaded_row (rows t)\<rparr>"
proof (cases "apply_series to_datetime (map (\<lambda>r. cell r ''created_utc'') (rows t))")
  case (Inl e)
  then show ?thesis
    using assms by (simp add: load_data_def load_query_def read_sql_def getitem_def)
next
  case (Inr ts)
  then have "ts = map as_timestamp (map (\<lambda>r. cell r ''created_utc'') (rows t))"
    by (rule conversion_returned)
  then show ?thesis
    using assms Inr
    by (simp add: load_data_def load_query_def read_sql_def getitem_def setitem_def
        map_zip_map2 map_zip_map comp_def loaded_row_def)
qed

lemma load_data_timed:
  assumes "mentions_frame t" and "list_all timed_row (rows t)"
  shows "load_data (Table t) = \<lparr>columns = mention_columns, rows = map loaded_row (rows t)\<rparr>"
proof -
  have c: "columns t = mention_columns"
    using assms(1) by (simp add: mentions_frame_def)
  have "apply_series to_datetime (map (\<lambda>r. cell r ''created_utc'') (rows t))
      = Inr (map (\<lambda>r. as_timestamp (cell r ''created_utc'')) (rows t))"
    using assms(2) by (rule conversion_of_timed_rows)
  then show ?thesis
    using c
    by (simp add: load_data_def load_query_def read_sql_def getitem_def setitem_def
        map_zip_map2 map_zip_map comp_def loaded_row_def mention_columns_def)
qed

lemma ids_of_frame:
  assumes "''id'' \<in> set cs"
  shows "\<exists>xs. (if \<not> df_empty \<lparr>columns = cs, rows = map loaded_row rs\<rparr>
                then getitem \<lparr>columns = cs, rows = map loaded_row rs\<rparr> ''id'' else Inr []) = Inr xs
           \<and> set xs = id_of ` set rs"
proof (cases "rs = []")
  case True
  then show ?thesis by (simp add: df_empty_def)
next
  case False
  have m: "(\<lambda>r. cell r ''id'') = id_of" by (simp add: id_of_def fun_eq_iff)
  have "\<not> df_empty \<lparr>columns = cs, rows = map loaded_row rs\<rparr>"
    using False assms by (auto simp: df_empty_def)
  moreover have "getitem \<lparr>columns = cs, rows = map loaded_row rs\<rparr> ''id''
      = Inr (map id_of (map loaded_row rs))"
    using assms by (simp add: getitem_def m)
  moreover have "set (map id_of (map loaded_row rs)) = id_of ` set rs"
    by (simp add: comp_def id_of_loaded_row)
  ultimately show ?thesis by simp
qed

lemma existing_ids_table:
  assumes "mentions_frame t"
  shows "\<exists>xs. (if \<not> df_empty (load_data (Table t)) then getitem (load_data (Table t)) ''id'' else Inr []) = Inr xs
           \<and> set xs \<subseteq> id_of ` set (rows t)
           \<and> (list_all timed_row (rows t) \<longrightarrow> set xs = id_of ` set (rows t))"
proof -
  have c: "columns t = mention_columns"
    using assms by (simp add: mentions_frame_def)
  have i: "''id'' \<in> set (columns t)" and u: "''created_utc'' \<in> set (columns t)"
    by (simp_all add: c mention_columns_def)
  obtain xs where
    xs: "(if \<not> df_empty \<lparr>columns = columns t, rows = map loaded_row (rows t)\<rparr>
          then getitem \<lparr>columns = columns t, rows = map loaded_row (rows t)\<rparr> ''id'' else Inr []) = Inr xs"
    and s: "set xs = id_of ` set (rows t)"
    using ids_of_frame [OF i] by blast
  show ?thesis
  proof (cases "list_all timed_row (rows t)")
    case True
    then have "load_data (Table t) = \<lparr>columns = columns t, rows = map loaded_row (rows t)\<rparr>"
      using assms by (simp add: load_data_timed c)
    then show ?thesis using xs s True by auto
  next
    case False
    from load_data_table [OF u] show ?thesis
    proof
      assume "load_data (Table t) = DataFrame_empty"
      then show ?thesis using False by (simp add: DataFrame_empty_def df_empty_def)
    next
      assume "load_data (Table t) = \<lparr>columns = columns t, rows = map loaded_row (rows t)\<rparr>"
      then show ?thesis using xs s False by auto
    qed
  qed
qed

lemma existing_ids:
  assumes "mentions_store st"
  shows "\<exists>xs. (if \<not> df_empty (load_data st) then getitem (load_data st) ''id'' else Inr []) = Inr xs
           \<and> set xs \<subseteq> id_of ` set (store_rows st)
           \<and> (loadable_store st \<longrightarrow> set xs = id_of ` set (store_rows st))"
proof (cases st)
  case NoFile
  then show ?thesis
    by (simp add: load_data_def DataFrame_empty_def df_empty_def store_rows_def)
next
  case NoTable
  then show ?thesis
    by (simp add: load_data_def load_query_def read_sql_def DataFrame_empty_def df_empty_def store_rows_def)
next
  case (Table t)
  then have "mentions_frame t" using assms by (simp add: mentions_store_def)
  from existing_ids_table [OF this] obtain xs where
    a: "(if \<not> df_empty (load_data (Table t)) then getitem (load_data (Table t)) ''id'' else Inr []) = Inr xs"
    and b: "set xs \<subseteq> id_of ` set (rows t)"
    and c: "list_all timed_row (rows t) \<longrightarrow> set xs = id_of ` set (rows t)"
    by blast
  have "set xs \<subseteq> id_of ` set (store_rows st)"
    using b Table by (simp add: store_rows_def)
  moreover have "loadable_store st \<longrightarrow> set xs = id_of ` set (store_rows st)"
    using c Table by (simp add: loadable_store_def store_rows_def)
  ultimately show ?thesis
    using a unfolding Table by blast
qed

lemma save_data_mentions:
  assumes "mentions_store st" and "new \<noteq> []"
  shows "save_data \<lparr>columns = mention_columns, rows = new\<rparr> st
           = Table \<lparr>columns = mention_columns, rows = store_rows st @ new\<rparr>"
  using assms
  by (cases st)
     (simp_all add: save_data_def df_empty_def to_sql_def store_rows_def mentions_store_def
        mentions_frame_def mention_columns_def)

lemma mention_rows_store: "mentions_store st \<Longrightarrow> list_all mention_row (store_rows st)"
  by (cases st) (simp_all add: mentions_store_def mentions_frame_def store_rows_def)

lemma save_data_frame:
  assumes "mentions_store st" and "mentions_frame df" and "rows df \<noteq> []"
  shows "save_data df st = Table \<lparr>columns = mention_columns, rows = store_rows st @ rows df\<rparr>"
proof -
  have d: "df = \<lparr>columns = mention_columns, rows = rows df\<rparr>"
    using assms(2) by (simp add: mentions_frame_def)
  have "save_data \<lparr>columns = mention_columns, rows = rows df\<rparr> st
      = Table \<lparr>columns = mention_columns, rows = store_rows st @ rows df\<rparr>"
    using assms(1,3) by (rule save_data_mentions)
  then show ?thesis using d by simp
qed

lemma load_after_save:
  assumes "loadable_store st" and "mentions_frame df" and "list_all timed_row (rows df)"
    and "rows df \<noteq> []"
  shows "load_data (save_data df st)
           = \<lparr>columns = mention_columns, rows = map loaded_row (store_rows st @ rows df)\<rparr>"
proof -
  have m: "mentions_store st" and t: "list_all timed_row (store_rows st)"
    using assms(1) by (simp_all add: loadable_store_def)
  have s: "save_data df st = Table \<lparr>columns = mention_columns, rows = store_rows st @ rows df\<rparr>"
    using m assms(2,4) by (rule save_data_frame)
  have "mentions_frame \<lparr>columns = mention_columns, rows = store_rows st @ rows df\<rparr>"
    using mention_rows_store [OF m] assms(2) by (simp add: mentions_frame_def)
  moreover have "list_all timed_row (rows \<lparr>columns = mention_columns, rows = store_rows st @ rows df\<rparr>)"
    using t assms(3) by simp
  ultimately show ?thesis
    unfolding s by (simp add: load_data_timed)
qed

lemma prefix_save_data: "prefix (store_rows st) (store_rows (save_data df st))"
  by (cases st) (simp_all add: save_data_def to_sql_def store_rows_def)

section \<open>One run of the pipeline\<close>

lemma run_update_pipeline_seen:
  assumes "mentions_store st"
  shows "\<exists>seen. seen \<subseteq> id_of ` set (store_rows st)
     \<and> (loadable_store st \<longrightarrow> seen = id_of ` set (store_rows st))
     \<and> run_update_pipeline search compound st =
         (if filter (\<lambda>r. id_of r \<notin> seen) (fetched search) = [] then (NoNewData, st)
          else (Completed,
                Table \<lparr>columns = mention_columns,
                       rows = store_rows st
                         @ map (score_row compound) (filter (\<lambda>r. id_of r \<notin> seen) (fetched search))\<rparr>))"
proof -
  define latest where "latest = fst (fetch_reddit_mentions search BRANDS SUBREDDITS POST_LIMIT)"
  obtain xs where
    xs: "(if \<not> df_empty (load_data st) then getitem (load_data st) ''id'' else Inr []) = Inr xs"
    and sub: "set xs \<subseteq> id_of ` set (store_rows st)"
    and eq: "loadable_store st \<longrightarrow> set xs = id_of ` set (store_rows st)"
    using existing_ids [OF assms] by blast
  define new where "new = filter (\<lambda>r. id_of r \<notin> set xs) (rows latest)"
  have f: "fetched search = rows latest" by (simp add: fetched_def latest_def)
  have m: "(\<lambda>r. cell r ''id'') = id_of" by (simp add: id_of_def fun_eq_iff)
  have run: "run_update_pipeline search compound st =
         (if new = [] then (NoNewData, st)
          else (Completed,
                Table \<lparr>columns = mention_columns, rows = store_rows st @ map (score_row compound) new\<rparr>))"
  proof (cases "rows latest = []")
    case True
    then have "df_empty latest" by (simp add: df_empty_def)
    then show ?thesis
      using True xs by (simp add: run_update_pipeline_def Let_def latest_def[symmetric] new_def)
  next
    case False
    then have c: "columns latest = mention_columns"
      unfolding latest_def by (rule fetch_columns)
    then have ne: "\<not> df_empty latest"
      using False by (simp add: df_empty_def mention_columns_def)
    have g: "getitem latest ''id'' = Inr (map id_of (rows latest))"
      using c by (simp add: getitem_def m mention_columns_def)
    have sel: "select_rows latest (invert (isin (map id_of (rows latest)) (set xs)))
        = \<lparr>columns = mention_columns, rows = new\<rparr>"
      using c by (simp add: select_rows_def select_rows_filter new_def)
    show ?thesis
    proof (cases "new = []")
      case True
      then show ?thesis
        using xs ne g sel
        by (simp add: run_update_pipeline_def Let_def latest_def[symmetric] df_empty_def)
    next
      case False
      then have e: "\<not> df_empty \<lparr>columns = mention_columns, rows = new\<rparr>"
        by (simp add: df_empty_def mention_columns_def)
      have "list_all mention_row (rows latest)"
        unfolding latest_def by (rule list_all_mention_fetch)
      then have "list_all mention_row new"
        by (simp add: new_def list_all_iff)
      then have a: "add_sentiment_scores compound \<lparr>columns = mention_columns, rows = new\<rparr>
          = Inr \<lparr>columns = mention_columns, rows = map (score_row compound) new\<rparr>"
        using add_sentiment_scores_mentions [of "\<lparr>columns = mention_columns, rows = new\<rparr>" compound]
        by simp
      show ?thesis
        using xs ne g sel False assms e a
        by (simp add: run_update_pipeline_def Let_def latest_def[symmetric] save_data_mentions)
    qed
  qed
  show ?thesis
    using sub eq run unfolding new_def f [symmetric] by blast
qed

lemma run_update_pipeline_mentions:
  assumes "loadable_store st"
  shows "run_update_pipeline search compound st =
     (if unseen st (fetched search) = [] then (NoNewData, st)
      else (Completed,
            Table \<lparr>columns = mention_columns,
                   rows = store_rows st @ map (score_row compound) (unseen st (fetched search))\<rparr>))"
proof -
  have "mentions_store st" using assms by (simp add: loadable_store_def)
  from run_update_pipeline_seen [OF this, of search compound] assms
  show ?thesis by (auto simp: unseen_def)
qed

lemma store_rows_after:
  assumes "loadable_store st"
  shows "store_rows (snd (run_update_pipeline search compound st))
           = store_rows st @ map (score_row compound) (unseen st (fetched search))"
  by (simp add: run_update_pipeline_mentions [OF assms] store_rows_def)

lemma loadable_store_after:
  assumes "loadable_store st" and "list_all timed_row (unseen st (fetched search))"
  shows "loadable_store (snd (run_update_pipeline search compound st))"
proof (cases "unseen st (fetched search) = []")
  case True
  then show ?thesis using assms(1) by (simp add: run_update_pipeline_mentions)
next
  case False
  have m: "mentions_store st" and t: "list_all timed_row (store_rows st)"
    using assms(1) by (simp_all add: loadable_store_def)
  have "list_all mention_row (map (score_row compound) (unseen st (fetched search)))"
    using mention_rows_unseen [of st search]
    by (simp add: list_all_iff mention_row_score_row)
  moreover have "list_all timed_row (map (score_row compound) (unseen st (fetched search)))"
    using assms(2) by (simp add: list_all_iff timed_row_score_row)
  ultimately show ?thesis
    using False assms(1) mention_rows_store [OF m] t
    by (simp add: run_update_pipeline_mentions loadable_store_def mentions_store_def
        mentions_frame_def store_rows_def)
qed

lemma unseen_after:
  assumes "loadable_store st"
  shows "unseen (snd (run_update_pipeline search compound st)) (fetched search) = []"
proof -
  have "id_of r \<in> id_of ` set (store_rows (snd (run_update_pipeline search compound st)))"
    if "r \<in> set (fetched search)" for r
  proof (cases "id_of r \<in> id_of ` set (store_rows st)")
    case True
    then show ?thesis by (auto simp: store_rows_after [OF assms])
  next
    case False
    then have "r \<in> set (unseen st (fetched search))"
      using that by (simp add: unseen_def)
    then have "id_of (score_row compound r)
        \<in> id_of ` set (map (score_row compound) (unseen st (fetched search)))"
      by simp
    then show ?thesis
      by (auto simp: store_rows_after [OF assms] id_of_score_row)
  qed
  then show ?thesis
    by (simp add: unseen_def filter_empty_conv)
qed

lemma run_update_pipeline_store:
  "snd (run_update_pipeline search compound st) = st
   \<or> (\<exists>df. snd (run_update_pipeline search compound st) = save_data df st)"
  by (auto simp: run_update_pipeline_def Let_def split: sum.splits if_splits)

section \<open>The example inputs\<close>

lemma loadable_store_A: "loadable_store store_A"
  by (simp add: loadable_store_def mentions_store_def mentions_frame_def store_A_def
      mention_row_mention store_rows_def)
     (simp add: timed_row_def mention_def cell_def post_A_def in_timestamp_range_def)

lemma load_data_store_F: "load_data store_F = DataFrame_empty"
  by (simp add: load_data_def load_query_def read_sql_def getitem_def store_F_def
      mention_columns_def mention_def cell_def post_F_def in_timestamp_range_def)

lemma fetched_api_F: "fetched api_F = [mention ''NVIDIA'' ''hardware'' post_F]"
  by (simp add: fetched_def fetch_rows pair_rows_def BRANDS_def SUBREDDITS_def api_F_def)

lemma run_api_F_NoFile:
  "run_update_pipeline api_F flat_compound NoFile
     = (Completed, Table \<lparr>columns = mention_columns,
          rows = [score_row flat_compound (mention ''NVIDIA'' ''hardware'' post_F)]\<rparr>)"
proof -
  have "loadable_store NoFile"
    by (simp add: loadable_store_def mentions_store_def store_rows_def)
  then show ?thesis
    by (simp add: run_update_pipeline_mentions fetched_api_F unseen_def store_rows_def)
qed

section \<open>The claims\<close>

subsection \<open>The label thresholds\<close>

text \<open>
  C1.  For every score the label is Positive exactly when the score is at least 0.05,
  Negative exactly when it is at most -0.05, and Neutral in every other case; at the
  boundaries, 0.05 is Positive, -0.05 is Negative and 0.0 is Neutral.
\<close>

theorem get_sentiment_label_thresholds:
  "(get_sentiment_label s = ''Positive'' \<longleftrightarrow> s \<ge> 0.05)
   \<and> (get_sentiment_label s = ''Negative'' \<longleftrightarrow> s \<le> - 0.05)
   \<and> (get_sentiment_label s = ''Neutral'' \<longleftrightarrow> \<not> s \<ge> 0.05 \<and> \<not> s \<le> - 0.05)
   \<and> get_sentiment_label 0.05 = ''Positive''
   \<and> get_sentiment_label (- 0.05) = ''Negative''
   \<and> get_sentiment_label 0.0 = ''Neutral''"
  by (simp add: get_sentiment_label_def)

subsection \<open>What a run persists\<close>

text \<open>
  C2, as the code has it.  For every store of mentions whose creation times all fit a
  pandas timestamp, so that loading it succeeds, and for every result of the fetch, the
  run scores and appends exactly the fetched rows whose id no stored row has: the scorer
  succeeds on those rows, the store afterwards holds the old rows followed by the scored
  ones, and the scored rows carry the ids of the unseen rows in their order.  The run
  ends at the early return when no fetched row is unseen, and at its last line
  otherwise.
\<close>

theorem pipeline_persists_unseen:
  assumes "loadable_store st"
  shows "\<exists>analyzed.
           add_sentiment_scores compound
             \<lparr>columns = mention_columns, rows = unseen st (fetched search)\<rparr> = Inr analyzed
           \<and> store_rows (snd (run_update_pipeline search compound st)) = store_rows st @ rows analyzed
           \<and> map id_of (rows analyzed) = map id_of (unseen st (fetched search))
           \<and> fst (run_update_pipeline search compound st)
               = (if unseen st (fetched search) = [] then NoNewData else Completed)"
proof -
  have "store_rows (snd (run_update_pipeline search compound st))
      = store_rows st @ map (score_row compound) (unseen st (fetched search))"
    by (rule store_rows_after [OF assms])
  moreover have "fst (run_update_pipeline search compound st)
      = (if unseen st (fetched search) = [] then NoNewData else Completed)"
    by (simp add: run_update_pipeline_mentions [OF assms])
  moreover have "add_sentiment_scores compound
        \<lparr>columns = mention_columns, rows = unseen st (fetched search)\<rparr>
      = Inr \<lparr>columns = mention_columns, rows = map (score_row compound) (unseen st (fetched search))\<rparr>"
    using mention_rows_unseen [of st search]
      add_sentiment_scores_mentions
        [of "\<lparr>columns = mention_columns, rows = unseen st (fetched search)\<rparr>" compound]
    by simp
  ultimately show ?thesis
    by (simp add: comp_def id_of_score_row)
qed

text \<open>
  The scenario of the specification: the fetch returns the posts A, B and C, the store
  holds A, and the run appends B and C, so that the store holds A, B, C.
\<close>

theorem pipeline_persists_unseen_witness:
  "loadable_store store_A
   \<and> map id_of (fetched api_ABC) = [Str ''A'', Str ''B'', Str ''C'']
   \<and> map id_of (store_rows store_A) = [Str ''A'']
   \<and> map id_of (unseen store_A (fetched api_ABC)) = [Str ''B'', Str ''C'']
   \<and> (\<exists>analyzed.
         add_sentiment_scores flat_compound
           \<lparr>columns = mention_columns, rows = unseen store_A (fetched api_ABC)\<rparr> = Inr analyzed
         \<and> store_rows (snd (run_update_pipeline api_ABC flat_compound store_A))
             = store_rows store_A @ rows analyzed
         \<and> map id_of (rows analyzed) = map id_of (unseen store_A (fetched api_ABC))
         \<and> fst (run_update_pipeline api_ABC flat_compound store_A)
             = (if unseen store_A (fetched api_ABC) = [] then NoNewData else Completed))
   \<and> map id_of (store_rows (snd (run_update_pipeline api_ABC flat_compound store_A)))
       = [Str ''A'', Str ''B'', Str ''C'']"
proof -
  have h: "loadable_store store_A" by (rule loadable_store_A)
  have f: "map id_of (fetched api_ABC) = [Str ''A'', Str ''B'', Str ''C'']"
    by (simp add: fetched_def fetch_rows pair_rows_def BRANDS_def SUBREDDITS_def api_ABC_def
        id_of_def mention_def cell_def post_A_def post_B_def post_C_def)
  have s: "map id_of (store_rows store_A) = [Str ''A'']"
    by (simp add: store_A_def store_rows_def id_of_def mention_def cell_def post_A_def)
  have u: "map id_of (unseen store_A (fetched api_ABC)) = [Str ''B'', Str ''C'']"
    by (simp add: unseen_def fetched_def fetch_rows pair_rows_def BRANDS_def SUBREDDITS_def api_ABC_def
        store_A_def store_rows_def id_of_def mention_def cell_def post_A_def post_B_def post_C_def)
  note t = pipeline_persists_unseen [OF h, of flat_compound api_ABC]
  from t obtain analyzed :: dataframe where
    a: "store_rows (snd (run_update_pipeline api_ABC flat_compound store_A))
          = store_rows store_A @ rows analyzed"
    and b: "map id_of (rows analyzed) = map id_of (unseen store_A (fetched api_ABC))"
    by blast
  have e: "map id_of (store_rows (snd (run_update_pipeline api_ABC flat_compound store_A)))
       = [Str ''A'', Str ''B'', Str ''C'']"
    by (simp add: a b s u)
  show ?thesis by (intro conjI h f s u t e)
qed

text \<open>
  C2 as stated, for every store, does not hold.  The store holds the post F, dated
  after the last pandas timestamp, and the fetch returns F.  The conversion of the
  creation times raises inside \<^verbatim>\<open>load_data\<close>, whose handler returns the empty frame;
  the run takes the set of stored ids to be empty, scores F and appends it again, and
  the store holds the id F twice.
\<close>

theorem stored_id_persisted_again_counterexample:
  "mentions_store store_F
   \<and> map id_of (store_rows store_F) = [Str ''F'']
   \<and> map id_of (fetched api_F) = [Str ''F'']
   \<and> fst (run_update_pipeline api_F flat_compound store_F) = Completed
   \<and> map id_of (store_rows (snd (run_update_pipeline api_F flat_compound store_F)))
       = [Str ''F'', Str ''F'']"
proof -
  have m: "mentions_store store_F"
    by (simp add: mentions_store_def mentions_frame_def store_F_def mention_row_mention)
  have s: "map id_of (store_rows store_F) = [Str ''F'']"
    by (simp add: store_F_def store_rows_def id_of_def mention_def cell_def post_F_def)
  have f: "map id_of (fetched api_F) = [Str ''F'']"
    by (simp add: fetched_api_F id_of_def mention_def cell_def post_F_def)
  have l: "fetch_reddit_mentions api_F BRANDS SUBREDDITS POST_LIMIT
      = (\<lparr>columns = mention_columns, rows = [mention ''NVIDIA'' ''hardware'' post_F]\<rparr>, [])"
    by (simp add: fetch_reddit_mentions_def Let_def search_brand_def BRANDS_def SUBREDDITS_def
        api_F_def DataFrame_def map_fst_mention)
  have a: "add_sentiment_scores flat_compound
        \<lparr>columns = mention_columns, rows = [mention ''NVIDIA'' ''hardware'' post_F]\<rparr>
      = Inr \<lparr>columns = mention_columns,
              rows = [score_row flat_compound (mention ''NVIDIA'' ''hardware'' post_F)]\<rparr>"
    using add_sentiment_scores_mentions
      [of "\<lparr>columns = mention_columns, rows = [mention ''NVIDIA'' ''hardware'' post_F]\<rparr>" flat_compound]
    by (simp add: mention_row_mention)
  have g: "getitem \<lparr>columns = mention_columns, rows = [mention ''NVIDIA'' ''hardware'' post_F]\<rparr> ''id''
      = Inr [Str ''F'']"
    by (simp add: getitem_def mention_columns_def mention_def cell_def post_F_def)
  have ne: "mention_columns \<noteq> []" by (simp add: mention_columns_def)
  have r: "run_update_pipeline api_F flat_compound store_F
      = (Completed, Table \<lparr>columns = mention_columns,
           rows = [mention ''NVIDIA'' ''hardware'' post_F,
                   score_row flat_compound (mention ''NVIDIA'' ''hardware'' post_F)]\<rparr>)"
    unfolding run_update_pipeline_def load_data_store_F l
    using ne
    by (simp add: Let_def DataFrame_empty_def df_empty_def g select_rows_def invert_def isin_def a
        save_data_def to_sql_def store_F_def)
  show ?thesis
    using m s f by (simp add: r store_rows_def id_of_score_row) (simp add: id_of_def mention_def cell_def post_F_def)
qed

subsection \<open>Running twice\<close>

text \<open>
  C3, as the code has it.  For every store of mentions that can be loaded and every
  source such that the creation times of the posts the first run stores fit a pandas
  timestamp, a second run against the same source ends at the early return for no new
  posts and leaves the store of the first run as it is: it appends no row.
\<close>

theorem second_run_appends_nothing:
  assumes "loadable_store st" and "list_all timed_row (unseen st (fetched search))"
  shows "run_update_pipeline search compound (snd (run_update_pipeline search compound st))
           = (NoNewData, snd (run_update_pipeline search compound st))"
  using loadable_store_after [OF assms, of compound] unseen_after [OF assms(1), of search compound]
  by (simp add: run_update_pipeline_mentions)

text \<open>
  With the three posts and the store that holds A: the first run leaves three rows and
  the second run changes nothing.
\<close>

theorem second_run_appends_nothing_witness:
  "loadable_store store_A
   \<and> list_all timed_row (unseen store_A (fetched api_ABC))
   \<and> run_update_pipeline api_ABC flat_compound
         (snd (run_update_pipeline api_ABC flat_compound store_A))
       = (NoNewData, snd (run_update_pipeline api_ABC flat_compound store_A))
   \<and> length (store_rows (snd (run_update_pipeline api_ABC flat_compound store_A))) = 3"
proof -
  have h: "loadable_store store_A" by (rule loadable_store_A)
  have t: "list_all timed_row (unseen store_A (fetched api_ABC))"
    by (simp add: unseen_def fetched_def fetch_rows pair_rows_def BRANDS_def SUBREDDITS_def api_ABC_def
        store_A_def store_rows_def id_of_def timed_row_def mention_def cell_def post_A_def post_B_def
        post_C_def in_timestamp_range_def)
  have u: "length (unseen store_A (fetched api_ABC)) = 2"
    by (simp add: unseen_def fetched_def fetch_rows pair_rows_def BRANDS_def SUBREDDITS_def api_ABC_def
        store_A_def store_rows_def id_of_def mention_def cell_def post_A_def post_B_def post_C_def)
  have n: "length (store_rows (snd (run_update_pipeline api_ABC flat_compound store_A))) = 3"
    by (simp add: store_rows_after [OF h] u) (simp add: store_A_def store_rows_def)
  show ?thesis
    using h t second_run_appends_nothing [OF h t, of flat_compound] n by simp
qed

text \<open>
  C3 as stated, for every source, does not hold.  From an absent store, the first run
  stores the post F dated after the last pandas timestamp; the second run cannot load
  that store, reads it as empty, and appends F once more.
\<close>

theorem second_run_appends_again_counterexample:
  "length (store_rows (snd (run_update_pipeline api_F flat_compound NoFile))) = 1
   \<and> fst (run_update_pipeline api_F flat_compound
            (snd (run_update_pipeline api_F flat_compound NoFile))) = Completed
   \<and> length (store_rows (snd (run_update_pipeline api_F flat_compound
            (snd (run_update_pipeline api_F flat_compound NoFile))))) = 2"
proof -
  define first where
    "first = Table \<lparr>columns = mention_columns,
       rows = [score_row flat_compound (mention ''NVIDIA'' ''hardware'' post_F)]\<rparr>"
  have r1: "run_update_pipeline api_F flat_compound NoFile = (Completed, first)"
    by (simp add: run_api_F_NoFile first_def)
  have m: "mentions_store first"
    by (simp add: first_def mentions_store_def mentions_frame_def mention_row_score_row mention_row_mention)
  have ld: "load_data first = DataFrame_empty"
    by (simp add: first_def load_data_def load_query_def read_sql_def getitem_def
        mention_columns_def cell_score_row)
       (simp add: mention_def cell_def post_F_def in_timestamp_range_def)
  have l: "fetch_reddit_mentions api_F BRANDS SUBREDDITS POST_LIMIT
      = (\<lparr>columns = mention_columns, rows = [mention ''NVIDIA'' ''hardware'' post_F]\<rparr>, [])"
    by (simp add: fetch_reddit_mentions_def Let_def search_brand_def BRANDS_def SUBREDDITS_def
        api_F_def DataFrame_def map_fst_mention)
  have a: "add_sentiment_scores flat_compound
        \<lparr>columns = mention_columns, rows = [mention ''NVIDIA'' ''hardware'' post_F]\<rparr>
      = Inr \<lparr>columns = mention_columns,
              rows = [score_row flat_compound (mention ''NVIDIA'' ''hardware'' post_F)]\<rparr>"
    using add_sentiment_scores_mentions
      [of "\<lparr>columns = mention_columns, rows = [mention ''NVIDIA'' ''hardware'' post_F]\<rparr>" flat_compound]
    by (simp add: mention_row_mention)
  have g: "getitem \<lparr>columns = mention_columns, rows = [mention ''NVIDIA'' ''hardware'' post_F]\<rparr> ''id''
      = Inr [Str ''F'']"
    by (simp add: getitem_def mention_columns_def mention_def cell_def post_F_def)
  have ne: "mention_columns \<noteq> []" by (simp add: mention_columns_def)
  have s: "save_data \<lparr>columns = mention_columns,
               rows = [score_row flat_compound (mention ''NVIDIA'' ''hardware'' post_F)]\<rparr> first
      = Table \<lparr>columns = mention_columns,
          rows = store_rows first @ [score_row flat_compound (mention ''NVIDIA'' ''hardware'' post_F)]\<rparr>"
    using m by (simp add: save_data_mentions)
  have r2: "run_update_pipeline api_F flat_compound first
      = (Completed, Table \<lparr>columns = mention_columns,
           rows = store_rows first @ [score_row flat_compound (mention ''NVIDIA'' ''hardware'' post_F)]\<rparr>)"
    unfolding run_update_pipeline_def ld l
    using ne
    by (simp add: Let_def DataFrame_empty_def df_empty_def g select_rows_def invert_def isin_def a s)
  show ?thesis
    by (simp add: r1 r2 store_rows_def) (simp add: first_def)
qed

subsection \<open>Append only\<close>

text \<open>
  C4.  For every store, frame, source and scorer, the rows stored before a write or a
  run are, unchanged and in their places, the first rows stored after it: \<open>save_data\<close>
  and the pipeline only append.  This holds for every store, whatever its columns, and for
  every way a run ends.
\<close>

theorem pipeline_only_appends:
  "prefix (store_rows st) (store_rows (save_data df st))
   \<and> prefix (store_rows st) (store_rows (snd (run_update_pipeline search compound st)))"
  using run_update_pipeline_store [of search compound st] prefix_save_data
  by auto

subsection \<open>Writing and reading back\<close>

text \<open>
  C5, as the code has it.  For every store of mentions that can be loaded and every
  non-empty frame of mentions whose creation times fit a pandas timestamp and are whole
  numbers of nanoseconds, saving the frame and loading the store gives, after the rows
  stored before, one row for each row of the frame, in order; such a row has the cell of
  the saved row in every column but \<open>created_utc\<close>, and there the number of seconds
  \<open>x\<close> of the saved row has become the timestamp of the instant \<open>x\<close> seconds after the
  epoch.
\<close>

theorem save_then_load_roundtrip:
  assumes "loadable_store st" and "mentions_frame df" and "list_all instant_row (rows df)"
    and "rows df \<noteq> []"
  shows "columns (load_data (save_data df st)) = columns df
     \<and> length (rows (load_data (save_data df st))) = length (store_rows st) + length (rows df)
     \<and> (\<forall>i<length (rows df).
           (\<forall>c. c \<noteq> ''created_utc'' \<longrightarrow>
              cell (rows (load_data (save_data df st)) ! (length (store_rows st) + i)) c
                = cell (rows df ! i) c)
           \<and> (\<exists>x. cell (rows df ! i) ''created_utc'' = Num x
                \<and> cell (rows (load_data (save_data df st)) ! (length (store_rows st) + i)) ''created_utc''
                    = Ts x))"
proof -
  have td: "list_all timed_row (rows df)"
    using assms(3) by (simp add: list_all_iff instant_row_timed)
  have l: "load_data (save_data df st)
      = \<lparr>columns = mention_columns, rows = map loaded_row (store_rows st @ rows df)\<rparr>"
    using assms(1,2) td assms(4) by (rule load_after_save)
  have n: "rows (load_data (save_data df st)) ! (length (store_rows st) + i) = loaded_row (rows df ! i)"
    if "i < length (rows df)" for i
    using that by (simp add: l nth_append)
  have t: "\<exists>x. cell (rows df ! i) ''created_utc'' = Num x
        \<and> cell (loaded_row (rows df ! i)) ''created_utc'' = Ts x"
    if "i < length (rows df)" for i
  proof -
    have "instant_row (rows df ! i)"
      using assms(3) that by (simp add: list_all_length)
    then show ?thesis by (rule instant_row_loaded)
  qed
  have c: "columns (load_data (save_data df st)) = columns df"
    using assms(2) by (simp add: l mentions_frame_def)
  have len: "length (rows (load_data (save_data df st))) = length (store_rows st) + length (rows df)"
    by (simp add: l)
  show ?thesis
    using c len n t by (simp add: cell_loaded_row)
qed

text \<open>
  Saving the mention of post B into the store that holds A and loading: two rows, the
  second with the id of B and the timestamp of its creation time.
\<close>

theorem save_then_load_roundtrip_witness:
  "loadable_store store_A \<and> mentions_frame frame_B \<and> list_all instant_row (rows frame_B)
   \<and> rows frame_B \<noteq> []
   \<and> length (rows (load_data (save_data frame_B store_A))) = 2
   \<and> cell (rows (load_data (save_data frame_B store_A)) ! 1) ''created_utc'' = Ts 1700000060
   \<and> cell (rows (load_data (save_data frame_B store_A)) ! 1) ''id'' = Str ''B''"
proof -
  have h: "loadable_store store_A" by (rule loadable_store_A)
  have f: "mentions_frame frame_B"
    by (simp add: mentions_frame_def frame_B_def DataFrame_def map_fst_mention mention_row_mention)
  have w: "list_all instant_row (rows frame_B)"
    by (simp add: frame_B_def DataFrame_def instant_row_def mention_def cell_def post_B_def
        in_timestamp_range_def whole_nanoseconds_def)
  have r: "rows frame_B \<noteq> []" by (simp add: frame_B_def DataFrame_def)
  have n: "length (store_rows store_A) = 1" "length (rows frame_B) = 1"
    by (simp_all add: store_A_def store_rows_def frame_B_def DataFrame_def)
  have b: "cell (rows frame_B ! 0) ''created_utc'' = Num 1700000060"
     "cell (rows frame_B ! 0) ''id'' = Str ''B''"
    by (simp_all add: frame_B_def DataFrame_def mention_def cell_def post_B_def)
  note t = save_then_load_roundtrip [OF h f w r]
  from t have len: "length (rows (load_data (save_data frame_B store_A))) = 2"
    using n by simp
  from t n have "\<exists>x. cell (rows frame_B ! 0) ''created_utc'' = Num x
         \<and> cell (rows (load_data (save_data frame_B store_A)) ! 1) ''created_utc'' = Ts x"
    by simp
  then have ts: "cell (rows (load_data (save_data frame_B store_A)) ! 1) ''created_utc'' = Ts 1700000060"
    using b by simp
  from t n have "cell (rows (load_data (save_data frame_B store_A)) ! 1) ''id'' = cell (rows frame_B ! 0) ''id''"
    by simp
  then have i: "cell (rows (load_data (save_data frame_B store_A)) ! 1) ''id'' = Str ''B''"
    using b by simp
  show ?thesis by (intro conjI h f w r len ts i)
qed

text \<open>
  C5 as stated, for every mention, does not hold.  The mention of the post F, dated
  after the last pandas timestamp, is saved into an absent store; loading that store
  returns the empty frame, so the saved mention is not read back at all.
\<close>

theorem saved_mention_not_loaded_counterexample:
  "mentions_frame frame_F
   \<and> rows frame_F = [mention ''NVIDIA'' ''hardware'' post_F]
   \<and> save_data frame_F NoFile = store_F
   \<and> load_data (save_data frame_F NoFile) = DataFrame_empty
   \<and> rows (load_data (save_data frame_F NoFile)) = []"
proof -
  have f: "mentions_frame frame_F"
    by (simp add: mentions_frame_def frame_F_def DataFrame_def map_fst_mention mention_row_mention)
  have r: "rows frame_F = [mention ''NVIDIA'' ''hardware'' post_F]"
    by (simp add: frame_F_def DataFrame_def)
  have s: "save_data frame_F NoFile = store_F"
    by (simp add: save_data_def df_empty_def to_sql_def frame_F_def DataFrame_def store_F_def
        map_fst_mention)
       (simp add: mention_columns_def)
  show ?thesis
    using f r s by (simp add: load_data_store_F) (simp add: DataFrame_empty_def)
qed

subsection \<open>A failing query\<close>

text \<open>
  C6, as the code has it.  The fetch always returns: whatever the listings do, its
  frame is built from the rows of all pairs, subreddit by subreddit and brand by brand,
  and each pair contributes the rows of the posts its listing yielded before it ended or
  raised, so none when it raised before the first post; the printed lines are one line
  for each pair whose listing raised.  A failure of one pair changes the contribution
  of no other pair and never reaches the caller.
\<close>

theorem fetch_keeps_rows_before_failure:
  "fetch_reddit_mentions search brands subreddits limit =
     (DataFrame (concat (map (\<lambda>s. concat (map (pair_rows search limit s) brands)) subreddits)),
      concat (map (\<lambda>s. concat (map (pair_log search limit s) brands)) subreddits))"
  by (simp add: fetch_reddit_mentions_def Let_def foldl_subreddits)

text \<open>
  C6 as stated does not hold: a listing that yields one post and then raises leaves
  the row of that post in the result, although the query of its pair failed and the
  failure was printed.
\<close>

theorem fetch_failed_pair_counterexample:
  "raised (api_partial ''hardware'' ''NVIDIA'' 200) = Some ''received 503 HTTP response''
   \<and> rows (fst (fetch_reddit_mentions api_partial [''NVIDIA''] [''hardware''] 200))
       = [mention ''NVIDIA'' ''hardware'' post_A]
   \<and> rows (fst (fetch_reddit_mentions api_partial [''NVIDIA''] [''hardware''] 200)) \<noteq> []
   \<and> snd (fetch_reddit_mentions api_partial [''NVIDIA''] [''hardware''] 200)
       = [could_not_fetch ''hardware'' ''received 503 HTTP response'']"
  by (simp add: fetch_reddit_mentions_def Let_def search_brand_def api_partial_def DataFrame_def)

subsection \<open>Loading from an absent store\<close>

text \<open>
  C7.  Loading when the database file does not exist, or when it exists without the
  table, returns the empty frame, which has no rows; in the second case the query raises
  inside the \<^verbatim>\<open>try\<close> block and the handler returns the empty frame instead.
  \<open>load_data\<close> returns a frame in every case, so no error reaches its caller.
\<close>

theorem load_data_absent_store:
  "load_data NoFile = DataFrame_empty
   \<and> load_data NoTable = DataFrame_empty
   \<and> (\<exists>e. load_query NoTable = Inl e)
   \<and> rows DataFrame_empty = []
   \<and> df_empty DataFrame_empty"
  by (simp add: load_data_def load_query_def read_sql_def DataFrame_empty_def df_empty_def)

subsection \<open>The scorer and the text column\<close>

text \<open>
  C8, as the code has it.  The scorer raises the \<open>ValueError\<close> of its first line
  exactly when its input has no \<open>text\<close> column.  For every input with distinct column
  labels, a \<open>text\<close> column and a string in every text cell, it returns a frame with one
  row for each input row, whose \<open>sentiment_score\<close> is the compound score of the text of
  that row and whose \<open>sentiment_label\<close> is the label of that score.
\<close>

theorem add_sentiment_scores_on_strings:
  "(add_sentiment_scores compound df = Inl (ValueError ''DataFrame must contain a 'text' column.'')
      \<longleftrightarrow> ''text'' \<notin> set (columns df))
   \<and> (''text'' \<in> set (columns df) \<and> distinct (columns df)
        \<and> list_all (\<lambda>r. is_Str (cell r ''text'')) (rows df) \<longrightarrow>
       (\<exists>out. add_sentiment_scores compound df = Inr out
          \<and> length (rows out) = length (rows df)
          \<and> (\<forall>i<length (rows df). \<exists>s.
                cell (rows df ! i) ''text'' = Str s
                \<and> cell (rows out ! i) ''sentiment_score'' = Num (compound s)
                \<and> cell (rows out ! i) ''sentiment_label'' = Str (get_sentiment_label (compound s)))))"
proof (intro conjI impI)
  show "add_sentiment_scores compound df = Inl (ValueError ''DataFrame must contain a 'text' column.'')
      \<longleftrightarrow> ''text'' \<notin> set (columns df)"
    by (auto simp: add_sentiment_scores_def Let_def split: sum.splits dest: scores_raise_TypeError)
next
  assume a: "''text'' \<in> set (columns df) \<and> distinct (columns df)
        \<and> list_all (\<lambda>r. is_Str (cell r ''text'')) (rows df)"
  then obtain out :: dataframe where o: "add_sentiment_scores compound df = Inr out"
    using add_sentiment_scores_strings [of df compound] by blast
  have r: "rows out = map (score_row compound) (rows df)"
    using o by (rule rows_add_sentiment_scores)
  have "\<exists>s. cell (rows df ! i) ''text'' = Str s
        \<and> cell (rows out ! i) ''sentiment_score'' = Num (compound s)
        \<and> cell (rows out ! i) ''sentiment_label'' = Str (get_sentiment_label (compound s))"
    if "i < length (rows df)" for i
  proof -
    have "is_Str (cell (rows df ! i) ''text'')"
      using a that by (simp add: list_all_length)
    then obtain s where "cell (rows df ! i) ''text'' = Str s"
      by (cases "cell (rows df ! i) ''text''") simp_all
    then show ?thesis using scored_cells [OF o that] by blast
  qed
  then show "\<exists>out. add_sentiment_scores compound df = Inr out
          \<and> length (rows out) = length (rows df)
          \<and> (\<forall>i<length (rows df). \<exists>s.
                cell (rows df ! i) ''text'' = Str s
                \<and> cell (rows out ! i) ''sentiment_score'' = Num (compound s)
                \<and> cell (rows out ! i) ''sentiment_label'' = Str (get_sentiment_label (compound s)))"
    using o r by simp
qed

text \<open>
  A frame without a \<open>text\<close> column is refused; a frame of two texts is scored, and
  the first row gets the score of its text and the label of that score.
\<close>

theorem add_sentiment_scores_on_strings_witness:
  "add_sentiment_scores flat_compound frame_no_text
     = Inl (ValueError ''DataFrame must contain a 'text' column.'')
   \<and> ''text'' \<in> set (columns frame_text) \<and> distinct (columns frame_text)
   \<and> list_all (\<lambda>r. is_Str (cell r ''text'')) (rows frame_text)
   \<and> (\<exists>out. add_sentiment_scores flat_compound frame_text = Inr out
        \<and> length (rows out) = 2
        \<and> cell (rows out ! 0) ''sentiment_score'' = Num (flat_compound ''amazing product, love it'')
        \<and> cell (rows out ! 0) ''sentiment_label'' = Str ''Positive'')"
proof -
  have n: "''text'' \<notin> set (columns frame_no_text)" by (simp add: frame_no_text_def)
  have h: "''text'' \<in> set (columns frame_text) \<and> distinct (columns frame_text)
      \<and> list_all (\<lambda>r. is_Str (cell r ''text'')) (rows frame_text)"
    by (simp add: frame_text_def cell_def)
  have e: "add_sentiment_scores flat_compound frame_no_text
     = Inl (ValueError ''DataFrame must contain a 'text' column.'')"
    using add_sentiment_scores_on_strings [of flat_compound frame_no_text] n by blast
  obtain out :: dataframe where o: "add_sentiment_scores flat_compound frame_text = Inr out"
    and l: "length (rows out) = length (rows frame_text)"
    and c: "\<forall>i<length (rows frame_text). \<exists>s.
                cell (rows frame_text ! i) ''text'' = Str s
                \<and> cell (rows out ! i) ''sentiment_score'' = Num (flat_compound s)
                \<and> cell (rows out ! i) ''sentiment_label'' = Str (get_sentiment_label (flat_compound s))"
    using add_sentiment_scores_on_strings [of flat_compound frame_text] h by blast
  have len: "length (rows frame_text) = 2" by (simp add: frame_text_def)
  have t: "cell (rows frame_text ! 0) ''text'' = Str ''amazing product, love it''"
    by (simp add: frame_text_def cell_def)
  have "0 < length (rows frame_text)" by (simp add: len)
  with c obtain s0 where "cell (rows frame_text ! 0) ''text'' = Str s0"
    and "cell (rows out ! 0) ''sentiment_score'' = Num (flat_compound s0)"
    and "cell (rows out ! 0) ''sentiment_label'' = Str (get_sentiment_label (flat_compound s0))"
    by blast
  with t have s: "cell (rows out ! 0) ''sentiment_score'' = Num (flat_compound ''amazing product, love it'')"
    and b: "cell (rows out ! 0) ''sentiment_label''
        = Str (get_sentiment_label (flat_compound ''amazing product, love it''))"
    by simp_all
  have p: "get_sentiment_label (flat_compound ''amazing product, love it'') = ''Positive''"
    by (simp add: flat_compound_def get_sentiment_label_def)
  show ?thesis
    using e h o l len s b p by auto
qed

text \<open>
  C8 as stated does not hold: on a frame that has a \<open>text\<close> column with a missing
  text cell the analyzer raises a \<open>TypeError\<close>, which the scorer does not catch.
\<close>

theorem missing_text_cell_counterexample:
  "''text'' \<in> set (columns frame_null_text)
   \<and> add_sentiment_scores flat_compound frame_null_text = Inl (TypeError ''object is not iterable'')"
  by (simp add: frame_null_text_def add_sentiment_scores_def cell_def)

text \<open>
  C9.  Whenever the scorer returns a frame, its input had a \<open>text\<close> column, the result
  has the same number of rows, every row has, in every column other than
  \<open>sentiment_score\<close> and \<open>sentiment_label\<close>, the cell of the input row at the same
  position, and the other columns are those of the input in their order.  It does
  return on every input with distinct column labels, a \<open>text\<close> column and a string in
  every text cell; when it raises instead, it has assigned nothing.
\<close>

theorem add_sentiment_scores_frame:
  "(add_sentiment_scores compound df = Inr out \<longrightarrow>
      ''text'' \<in> set (columns df)
      \<and> length (rows out) = length (rows df)
      \<and> (\<forall>i<length (rows df). \<forall>c. c \<noteq> ''sentiment_score'' \<and> c \<noteq> ''sentiment_label'' \<longrightarrow>
            cell (rows out ! i) c = cell (rows df ! i) c)
      \<and> filter (\<lambda>c. c \<noteq> ''sentiment_score'' \<and> c \<noteq> ''sentiment_label'') (columns out)
          = filter (\<lambda>c. c \<noteq> ''sentiment_score'' \<and> c \<noteq> ''sentiment_label'') (columns df))
   \<and> (''text'' \<in> set (columns df) \<and> distinct (columns df)
        \<and> list_all (\<lambda>r. is_Str (cell r ''text'')) (rows df) \<longrightarrow>
       (\<exists>res. add_sentiment_scores compound df = Inr res))"
proof (intro conjI impI)
  assume o: "add_sentiment_scores compound df = Inr out"
  have r: "rows out = map (score_row compound) (rows df)"
    using o by (rule rows_add_sentiment_scores)
  show "''text'' \<in> set (columns df)"
    using o by (auto simp: add_sentiment_scores_def split: if_splits)
  show "length (rows out) = length (rows df)"
    by (simp add: r)
  show "\<forall>i<length (rows df). \<forall>c. c \<noteq> ''sentiment_score'' \<and> c \<noteq> ''sentiment_label'' \<longrightarrow>
            cell (rows out ! i) c = cell (rows df ! i) c"
    by (simp add: r cell_score_row)
  show "filter (\<lambda>c. c \<noteq> ''sentiment_score'' \<and> c \<noteq> ''sentiment_label'') (columns out)
          = filter (\<lambda>c. c \<noteq> ''sentiment_score'' \<and> c \<noteq> ''sentiment_label'') (columns df)"
    using o by (rule columns_add_sentiment_scores)
next
  assume "''text'' \<in> set (columns df) \<and> distinct (columns df)
        \<and> list_all (\<lambda>r. is_Str (cell r ''text'')) (rows df)"
  then show "\<exists>res. add_sentiment_scores compound df = Inr res"
    using add_sentiment_scores_strings [of df compound] by blast
qed

text \<open>
  Scoring a frame of two rows with the columns \<open>id\<close> and \<open>text\<close>: two rows, the
  same ids and texts in the same order, and the two columns kept before the added ones.
\<close>

theorem add_sentiment_scores_frame_witness:
  "''text'' \<in> set (columns frame_text) \<and> distinct (columns frame_text)
   \<and> list_all (\<lambda>r. is_Str (cell r ''text'')) (rows frame_text)
   \<and> (\<exists>out. add_sentiment_scores flat_compound frame_text = Inr out
        \<and> length (rows out) = 2
        \<and> map (\<lambda>r. cell r ''id'') (rows out) = [Str ''A'', Str ''B'']
        \<and> map (\<lambda>r. cell r ''text'') (rows out) = map (\<lambda>r. cell r ''text'') (rows frame_text)
        \<and> filter (\<lambda>c. c \<noteq> ''sentiment_score'' \<and> c \<noteq> ''sentiment_label'') (columns out)
            = [''id'', ''text''])"
proof -
  have h: "''text'' \<in> set (columns frame_text) \<and> distinct (columns frame_text)
      \<and> list_all (\<lambda>r. is_Str (cell r ''text'')) (rows frame_text)"
    by (simp add: frame_text_def cell_def)
  note t = add_sentiment_scores_frame [of flat_compound frame_text]
  from t h obtain out :: dataframe where o: "add_sentiment_scores flat_compound frame_text = Inr out"
    by blast
  have len0: "length (rows frame_text) = 2" by (simp add: frame_text_def)
  from add_sentiment_scores_frame [of flat_compound frame_text out] o
  have len: "length (rows out) = length (rows frame_text)"
    and cells: "\<forall>i<length (rows frame_text). \<forall>c. c \<noteq> ''sentiment_score'' \<and> c \<noteq> ''sentiment_label'' \<longrightarrow>
            cell (rows out ! i) c = cell (rows frame_text ! i) c"
    and cols: "filter (\<lambda>c. c \<noteq> ''sentiment_score'' \<and> c \<noteq> ''sentiment_label'') (columns out)
          = filter (\<lambda>c. c \<noteq> ''sentiment_score'' \<and> c \<noteq> ''sentiment_label'') (columns frame_text)"
    by blast+
  have same: "map (\<lambda>r. cell r c) (rows out) = map (\<lambda>r. cell r c) (rows frame_text)"
    if "c \<noteq> ''sentiment_score'' \<and> c \<noteq> ''sentiment_label''" for c
    using len cells that by (simp add: list_eq_iff_nth_eq)
  have i: "map (\<lambda>r. cell r ''id'') (rows out) = [Str ''A'', Str ''B'']"
    using same [of "''id''"] by (simp add: frame_text_def cell_def)
  have x: "map (\<lambda>r. cell r ''text'') (rows out) = map (\<lambda>r. cell r ''text'') (rows frame_text)"
    using same [of "''text''"] by simp
  have k: "filter (\<lambda>c. c \<noteq> ''sentiment_score'' \<and> c \<noteq> ''sentiment_label'') (columns out) = [''id'', ''text'']"
    using cols by (simp add: frame_text_def)
  show ?thesis
    using h o len len0 i x k by auto
qed

subsection \<open>The same id twice in one batch\<close>



end
